theory Spec2Isabelle
  imports Complex_Main "HOL-Library.Log_Nat"
begin

section \<open>Python values shared by the modules\<close>

text \<open>
  Strings are lists of characters, a character standing for one code point below 256.
  A dictionary is an association list in insertion order, read with \<open>map_of\<close>; the
  keys of a dictionary built by the functions below are pairwise distinct.

  An exception is a value. Every exception of the model derives from Python's
  \<open>Exception\<close>, which is what the handlers of the source (\<open>except Exception\<close>) catch;
  interpreter signals that derive from \<open>BaseException\<close> only (keyboard interrupt,
  interpreter exit, task cancellation) are not part of the model.
\<close>

datatype pyexc =
    KeyError string
  | TypeError string
  | ValueError string
  | ZeroDivisionError string
  | OverflowError string
  | RaisedError string string

text \<open>\<open>repr\<close> of a key that holds no quote, backslash or control character.\<close>

definition repr_str :: "string \<Rightarrow> string" where
  "repr_str k = CHR 0x27 # k @ [CHR 0x27]"

text \<open>\<open>str(e)\<close>: the message, and for a \<open>KeyError\<close> the \<open>repr\<close> of the missing key.\<close>

fun str_exc :: "pyexc \<Rightarrow> string" where
  "str_exc (KeyError k) = repr_str k"
| "str_exc (TypeError m) = m"
| "str_exc (ValueError m) = m"
| "str_exc (ZeroDivisionError m) = m"
| "str_exc (OverflowError m) = m"
| "str_exc (RaisedError cls m) = m"

subsection \<open>Floating point\<close>

text \<open>
  A Python float is an IEEE 754 binary64 number: a rational that the format represents,
  an infinity, or a NaN. The two zeros are identified (they compare equal in Python and
  no operation below divides by a variable). Every arithmetic operation returns the
  exact result rounded to the nearest representable number, ties to even (\<open>fl\<close>).
\<close>

datatype pyfloat = Finite rat | PosInf | NegInf | NaN

definition round_half_even :: "rat \<Rightarrow> int" where
  "round_half_even x =
     (let f = \<lfloor>x\<rfloor>; r = x - of_int f
      in if r < 1 / 2 then f else if 1 / 2 < r then f + 1 else if even f then f else f + 1)"

text \<open>For \<open>0 < x\<close>, the exponent \<open>e\<close> with \<open>2 powi e \<le> x < 2 powi (e + 1)\<close>.\<close>

definition ilog2 :: "rat \<Rightarrow> int" where
  "ilog2 x = (let (p, q) = quotient_of x; d = bitlen p - bitlen q
              in if 2 powi d \<le> x then d else d - 1)"

text \<open>
  Rounding to binary64: 53 significant bits, the exponent of a normal number between
  -1022 and 1023, subnormal numbers spaced \<open>2 powi (- 1074)\<close> apart. With \<open>e\<close> the
  exponent of the argument (at least -1022) and \<open>q = 2 powi (e - 52)\<close> the spacing of
  the floats at that exponent, the result is the multiple \<open>m * q\<close> nearest to the
  argument, ties to the even \<open>m\<close>. It overflows to an infinity when the exponent
  exceeds 1023, or is 1023 and the rounding carries \<open>m\<close> up to \<open>2 ^ 53\<close>.
\<close>

definition fl :: "rat \<Rightarrow> pyfloat" where
  "fl x =
     (if x = 0 then Finite 0
      else let a = \<bar>x\<bar>;
               e = max (ilog2 a) (- 1022)
           in if 1023 < e then (if 0 < x then PosInf else NegInf)
              else let q = 2 powi (e - 52);
                       m = round_half_even (a / q)
                   in if e = 1023 \<and> m = 2 ^ 53 then (if 0 < x then PosInf else NegInf)
                      else Finite (sgn x * (of_int m * q)))"

fun fneg :: "pyfloat \<Rightarrow> pyfloat" where
  "fneg (Finite a) = Finite (- a)"
| "fneg PosInf = NegInf"
| "fneg NegInf = PosInf"
| "fneg NaN = NaN"

fun fadd :: "pyfloat \<Rightarrow> pyfloat \<Rightarrow> pyfloat" where
  "fadd (Finite a) (Finite b) = fl (a + b)"
| "fadd NaN y = NaN"
| "fadd x NaN = NaN"
| "fadd PosInf NegInf = NaN"
| "fadd NegInf PosInf = NaN"
| "fadd PosInf y = PosInf"
| "fadd NegInf y = NegInf"
| "fadd x PosInf = PosInf"
| "fadd x NegInf = NegInf"

definition fsub :: "pyfloat \<Rightarrow> pyfloat \<Rightarrow> pyfloat" where
  "fsub x y = fadd x (fneg y)"

text \<open>The sign of a float: 1, 0 or -1; \<open>None\<close> for a NaN.\<close>

fun fsign :: "pyfloat \<Rightarrow> int option" where
  "fsign (Finite a) = Some (if 0 < a then 1 else if a < 0 then - 1 else 0)"
| "fsign PosInf = Some 1"
| "fsign NegInf = Some (- 1)"
| "fsign NaN = None"

definition inf_of_sign :: "int \<Rightarrow> pyfloat" where
  "inf_of_sign s = (if 0 < s then PosInf else if s < 0 then NegInf else NaN)"

fun fmul :: "pyfloat \<Rightarrow> pyfloat \<Rightarrow> pyfloat" where
  "fmul (Finite a) (Finite b) = fl (a * b)"
| "fmul x y =
     (case (fsign x, fsign y) of
        (Some s, Some t) \<Rightarrow> inf_of_sign (s * t)
      | _ \<Rightarrow> NaN)"

text \<open>
  True division of floats. Python raises \<open>ZeroDivisionError\<close> when the divisor is zero,
  whatever the dividend.
\<close>

fun fdiv :: "pyfloat \<Rightarrow> pyfloat \<Rightarrow> pyexc + pyfloat" where
  "fdiv x (Finite b) =
     (if b = 0 then Inl (ZeroDivisionError ''float division by zero'')
      else case x of
             Finite a \<Rightarrow> Inr (fl (a / b))
           | NaN \<Rightarrow> Inr NaN
           | _ \<Rightarrow> Inr (inf_of_sign (the (fsign x) * (if 0 < b then 1 else - 1))))"
| "fdiv x NaN = Inr NaN"
| "fdiv (Finite a) y = Inr (Finite 0)"
| "fdiv x y = Inr NaN"

text \<open>
  \<open>round(x, ndigits)\<close> on a float, for \<open>0 \<le> ndigits \<le> 323\<close>: infinities and NaN round to
  themselves; a finite value is rounded, exactly and ties to even, to \<open>ndigits\<close>
  decimal places, and the decimal result is read back as the nearest float.
\<close>

fun py_round :: "pyfloat \<Rightarrow> nat \<Rightarrow> pyfloat" where
  "py_round (Finite a) n = fl (of_int (round_half_even (a * 10 ^ n)) / 10 ^ n)"
| "py_round x n = x"

text \<open>
  True division of integers: the exact quotient rounded to the nearest float.
\<close>

definition truediv_int :: "int \<Rightarrow> int \<Rightarrow> pyexc + pyfloat" where
  "truediv_int p q =
     (if q = 0 then Inl (ZeroDivisionError ''division by zero'')
      else case fl (of_int p / of_int q) of
             Finite r \<Rightarrow> Inr (Finite r)
           | _ \<Rightarrow> Inl (OverflowError ''integer division result too large for a float''))"

subsection \<open>Numbers\<close>

text \<open>
  A number is an int or a float. Arithmetic on two ints is exact, except that true
  division gives a float. When one operand is a float the other is converted to a float
  first: an int converts to the nearest float, and Python raises \<open>OverflowError\<close> when
  it is too large for one.
\<close>

datatype pynum = IntNum int | FloatNum pyfloat

text \<open>Sequencing of two steps that may raise: the second runs when the first returns.\<close>

definition and_then :: "pyexc + 'a \<Rightarrow> ('a \<Rightarrow> pyexc + 'b) \<Rightarrow> pyexc + 'b" where
  "and_then x f = (case x of Inl e \<Rightarrow> Inl e | Inr a \<Rightarrow> f a)"

definition float_of_int :: "int \<Rightarrow> pyexc + pyfloat" where
  "float_of_int n =
     (case fl (of_int n) of
        Finite r \<Rightarrow> Inr (Finite r)
      | _ \<Rightarrow> Inl (OverflowError ''int too large to convert to float''))"

fun as_float :: "pynum \<Rightarrow> pyexc + pyfloat" where
  "as_float (IntNum n) = float_of_int n"
| "as_float (FloatNum x) = Inr x"

text \<open>
  A binary operator: the integer operation on two ints, otherwise the float operation
  on the operands as floats, the left one converted first.
\<close>

fun binop ::
  "(int \<Rightarrow> int \<Rightarrow> pyexc + pynum) \<Rightarrow> (pyfloat \<Rightarrow> pyfloat \<Rightarrow> pyexc + pyfloat)
     \<Rightarrow> pynum \<Rightarrow> pynum \<Rightarrow> pyexc + pynum" where
  "binop int_op float_op (IntNum m) (IntNum n) = int_op m n"
| "binop int_op float_op a b =
     and_then (as_float a) (\<lambda>x.
     and_then (as_float b) (\<lambda>y.
     and_then (float_op x y) (\<lambda>r. Inr (FloatNum r))))"

definition num_add :: "pynum \<Rightarrow> pynum \<Rightarrow> pyexc + pynum" where
  "num_add = binop (\<lambda>m n. Inr (IntNum (m + n))) (\<lambda>x y. Inr (fadd x y))"

definition num_sub :: "pynum \<Rightarrow> pynum \<Rightarrow> pyexc + pynum" where
  "num_sub = binop (\<lambda>m n. Inr (IntNum (m - n))) (\<lambda>x y. Inr (fsub x y))"

definition num_mul :: "pynum \<Rightarrow> pynum \<Rightarrow> pyexc + pynum" where
  "num_mul = binop (\<lambda>m n. Inr (IntNum (m * n))) (\<lambda>x y. Inr (fmul x y))"

definition num_truediv :: "pynum \<Rightarrow> pynum \<Rightarrow> pyexc + pynum" where
  "num_truediv = binop (\<lambda>m n. and_then (truediv_int m n) (\<lambda>r. Inr (FloatNum r))) fdiv"

text \<open>
  \<open>round(x, ndigits)\<close> for \<open>0 \<le> ndigits\<close>: an int rounds to itself, a float as
  \<open>py_round\<close> says.
\<close>

fun num_round :: "pynum \<Rightarrow> nat \<Rightarrow> pynum" where
  "num_round (IntNum n) d = IntNum n"
| "num_round (FloatNum x) d = FloatNum (py_round x d)"

subsection \<open>Structured values\<close>

datatype pyval =
    PyBool bool
  | PyInt int
  | PyFloat pyfloat
  | PyStr string
  | PyList "pyval list"
  | PyDict "(string \<times> pyval) list"

type_synonym pydict = "(string \<times> pyval) list"

fun num_val :: "pynum \<Rightarrow> pyval" where
  "num_val (IntNum n) = PyInt n"
| "num_val (FloatNum x) = PyFloat x"

subsection \<open>String methods\<close>

text \<open>
  \<open>str.lower\<close> on code points below 256: the letters A to Z and the accented capitals
  of Latin-1 (192 to 222, the multiplication sign 215 apart) move up by 32.
\<close>

definition lower_char :: "char \<Rightarrow> char" where
  "lower_char c =
     (let n = (of_char c :: nat)
      in if (65 \<le> n \<and> n \<le> 90) \<or> (192 \<le> n \<and> n \<le> 222 \<and> n \<noteq> 215)
         then char_of (n + 32) else c)"

definition lower :: "string \<Rightarrow> string" where
  "lower s = map lower_char s"

text \<open>\<open>str.isspace\<close> on one code point below 256.\<close>

definition isspace :: "char \<Rightarrow> bool" where
  "isspace c = ((of_char c :: nat) \<in> {9, 10, 11, 12, 13, 28, 29, 30, 31, 32, 133, 160})"

text \<open>
  \<open>text.split()\<close>: the maximal runs of characters that are not white space, in order
  (\<open>split_ws [] text\<close>; the first argument holds the current run, reversed).
\<close>

fun split_ws :: "string \<Rightarrow> string \<Rightarrow> string list" where
  "split_ws cur [] = (if cur = [] then [] else [rev cur])"
| "split_ws cur (c # cs) =
     (if isspace c then (if cur = [] then split_ws [] cs else rev cur # split_ws [] cs)
      else split_ws (c # cur) cs)"

text \<open>
  \<open>text.split(sep)\<close> for the non-empty separator \<open>s0 # ss\<close>: the pieces between the
  occurrences of the separator, found from left to right, empty pieces included
  (\<open>split_sep s0 ss [] text\<close>).
\<close>

fun split_sep :: "char \<Rightarrow> string \<Rightarrow> string \<Rightarrow> string \<Rightarrow> string list" where
  "split_sep s0 ss cur [] = [rev cur]"
| "split_sep s0 ss cur (c # cs) =
     (if c = s0 \<and> take (length ss) cs = ss
      then rev cur # split_sep s0 ss [] (drop (length ss) cs)
      else split_sep s0 ss (c # cur) cs)"

text \<open>\<open>s.strip()\<close> and \<open>s.strip(chars)\<close>.\<close>

definition strip_ws :: "string \<Rightarrow> string" where
  "strip_ws s = rev (dropWhile isspace (rev (dropWhile isspace s)))"

definition strip_chars :: "string \<Rightarrow> string \<Rightarrow> string" where
  "strip_chars chars s =
     rev (dropWhile (\<lambda>c. c \<in> set chars) (rev (dropWhile (\<lambda>c. c \<in> set chars) s)))"

subsection \<open>Dictionary and list operations\<close>

definition dict_get :: "(string \<times> 'v) list \<Rightarrow> string \<Rightarrow> 'v \<Rightarrow> 'v" where
  "dict_get d k dflt = (case map_of d k of None \<Rightarrow> dflt | Some v \<Rightarrow> v)"

text \<open>\<open>d[k] = v\<close>: a present key keeps its place, a new key goes to the end.\<close>

fun dict_set :: "(string \<times> 'v) list \<Rightarrow> string \<Rightarrow> 'v \<Rightarrow> (string \<times> 'v) list" where
  "dict_set [] k v = [(k, v)]"
| "dict_set ((k', v') # d) k v = (if k' = k then (k, v) # d else (k', v') # dict_set d k v)"

text \<open>\<open>k in d\<close>.\<close>

definition has_key :: "(string \<times> 'v) list \<Rightarrow> string \<Rightarrow> bool" where
  "has_key d k = (k \<in> set (map fst d))"

text \<open>The slice \<open>xs[:n]\<close>; a negative \<open>n\<close> counts from the end.\<close>

definition slice_to :: "'a list \<Rightarrow> int \<Rightarrow> 'a list" where
  "slice_to xs n = (if n < 0 then take (nat (int (length xs) + n)) xs else take (nat n) xs)"

section \<open>tools/custom\_tools.py\<close>

subsection \<open>Text analysis\<close>

definition word_punctuation :: string where
  "word_punctuation = ''.,!?;:'' @ [CHR 0x22] @ ''()[]{}''"

text \<open>The loop of \<open>get_most_common_words\<close> over the words, threading \<open>word_count\<close>.\<close>

fun count_words :: "(string \<times> int) list \<Rightarrow> string list \<Rightarrow> (string \<times> int) list" where
  "count_words word_count [] = word_count"
| "count_words word_count (word # words) =
     (let clean_word = strip_chars word_punctuation (lower word)
      in if clean_word \<noteq> [] \<and> 2 < length clean_word
         then count_words (dict_set word_count clean_word (dict_get word_count clean_word 0 + 1)) words
         else count_words word_count words)"

text \<open>
  \<open>sorted(..., key=lambda x: x[1], reverse=True)\<close> is stable: entries of equal count keep
  the order of the dictionary. \<open>sort_key\<close> is stable as well, so sorting by the negated
  count gives the same list.
\<close>

definition get_most_common_words :: "string list \<Rightarrow> int \<Rightarrow> pyval list" where
  "get_most_common_words words top_n =
     (let word_count = count_words [] words;
          sorted_words = sort_key (\<lambda>x. - snd x) word_count
      in map (\<lambda>(word, count). PyDict [(''word'', PyStr word), (''count'', PyInt count)])
             (slice_to sorted_words top_n))"

text \<open>The body of the \<open>try\<close> block: \<open>Inl\<close> is an exception raised inside it.\<close>

definition text_analyzer_body :: "string \<Rightarrow> pyexc + pydict" where
  "text_analyzer_body text =
     (let words = split_ws [] text;
          sentences = split_sep (CHR ''.'') [] [] text;
          paragraphs = split_sep (CHR 0x0A) [CHR 0x0A] [] text;
          sentence_count = int (length (filter (\<lambda>s. strip_ws s \<noteq> []) sentences))
      in case truediv_int (int (length words)) (max sentence_count 1) of
           Inl e \<Rightarrow> Inl e
         | Inr avg \<Rightarrow>
             Inr [(''character_count'', PyInt (int (length text))),
                  (''word_count'', PyInt (int (length words))),
                  (''sentence_count'', PyInt sentence_count),
                  (''paragraph_count'',
                     PyInt (int (length (filter (\<lambda>p. strip_ws p \<noteq> []) paragraphs)))),
                  (''average_words_per_sentence'', PyFloat (py_round avg 2)),
                  (''most_common_words'', PyList (get_most_common_words words 5))])"

definition text_analyzer_tool :: "string \<Rightarrow> pydict" where
  "text_analyzer_tool text =
     (case text_analyzer_body text of
        Inr d \<Rightarrow> d
      | Inl e \<Rightarrow> [(''error'', PyStr (str_exc e))])"

subsection \<open>Unit conversion\<close>

definition conversions :: "(string \<times> (string \<times> pyfloat) list) list" where
  "conversions =
     [(''length'',
         [(''meter'', fl 1),
          (''kilometer'', fl 1000),
          (''centimeter'', fl (1 / 100)),
          (''millimeter'', fl (1 / 1000)),
          (''inch'', fl (254 / 10000)),
          (''foot'', fl (3048 / 10000)),
          (''yard'', fl (9144 / 10000)),
          (''mile'', fl (160934 / 100))]),
      (''weight'',
         [(''kilogram'', fl 1),
          (''gram'', fl (1 / 1000)),
          (''pound'', fl (453592 / 1000000)),
          (''ounce'', fl (283495 / 10000000)),
          (''ton'', fl 1000)]),
      (''temperature'', [])]"

text \<open>
  The value to convert is a number: the signature annotates a float, and callers pass
  ints as well. The constants 32, 5 and 9 of the source are ints, 273.15 and the
  factors of the table are floats.
\<close>

definition convert_temperature :: "pynum \<Rightarrow> string \<Rightarrow> string \<Rightarrow> pyexc + pynum" where
  "convert_temperature v from_unit to_unit =
     and_then
       (if lower from_unit = ''fahrenheit''
        then and_then (num_sub v (IntNum 32)) (\<lambda>a.
             and_then (num_mul a (IntNum 5)) (\<lambda>b.
             num_truediv b (IntNum 9)))
        else if lower from_unit = ''kelvin''
        then num_sub v (FloatNum (fl (27315 / 100)))
        else Inr v)
       (\<lambda>celsius.
          if lower to_unit = ''fahrenheit''
          then and_then (num_mul celsius (IntNum 9)) (\<lambda>a.
               and_then (num_truediv a (IntNum 5)) (\<lambda>b.
               num_add b (IntNum 32)))
          else if lower to_unit = ''kelvin''
          then num_add celsius (FloatNum (fl (27315 / 100)))
          else Inr celsius)"

definition conversion_result :: "pynum \<Rightarrow> string \<Rightarrow> pynum \<Rightarrow> string \<Rightarrow> string \<Rightarrow> pydict" where
  "conversion_result v from_unit result to_unit unit_type =
     [(''original_value'', num_val v),
      (''original_unit'', PyStr from_unit),
      (''converted_value'', num_val (num_round result 6)),
      (''converted_unit'', PyStr to_unit),
      (''unit_type'', PyStr unit_type)]"

text \<open>
  The body of the \<open>try\<close> block: \<open>Inl\<close> is an exception raised inside it, \<open>Inr\<close> the
  mapping it returns (one of the two early error returns, or the conversion).
\<close>

definition unit_converter_body :: "pynum \<Rightarrow> string \<Rightarrow> string \<Rightarrow> string \<Rightarrow> pyexc + pydict" where
  "unit_converter_body v from_unit to_unit unit_type =
     (if unit_type = ''temperature''
      then and_then (convert_temperature v from_unit to_unit) (\<lambda>result.
           Inr (conversion_result v from_unit result to_unit unit_type))
      else if \<not> has_key conversions unit_type
      then Inr [(''error'', PyStr (''Unknown unit type: '' @ unit_type))]
      else let unit_map = the (map_of conversions unit_type)
           in if \<not> has_key unit_map from_unit \<or> \<not> has_key unit_map to_unit
              then Inr [(''error'', PyStr (''Unknown unit for '' @ unit_type))]
              else and_then (num_mul v (FloatNum (the (map_of unit_map from_unit)))) (\<lambda>base_value.
                   and_then (num_truediv base_value (FloatNum (the (map_of unit_map to_unit))))
                     (\<lambda>result.
                   Inr (conversion_result v from_unit result to_unit unit_type))))"

text \<open>
  The two membership tests of the body: a unit name is known for a unit type when the
  type is a key of \<open>conversions\<close> and the name is a key of the table of that type.
\<close>

definition known_unit :: "string \<Rightarrow> string \<Rightarrow> bool" where
  "known_unit unit_type u =
     (has_key conversions unit_type \<and> has_key (the (map_of conversions unit_type)) u)"

definition unit_converter_tool :: "pynum \<Rightarrow> string \<Rightarrow> string \<Rightarrow> string \<Rightarrow> pydict" where
  "unit_converter_tool v from_unit to_unit unit_type =
     (case unit_converter_body v from_unit to_unit unit_type of
        Inr d \<Rightarrow> d
      | Inl e \<Rightarrow> [(''error'', PyStr (str_exc e))])"

section \<open>config/ollama\_config.py\<close>

text \<open>
  \<open>OllamaConfig\<close> holds what the constructor reads from the process environment once;
  \<open>OllamaConfig_defaults\<close> is the instance built when no variable is set.
\<close>

record OllamaConfig =
  base_url :: string
  default_model :: string
  timeout :: int

definition OllamaConfig_defaults :: OllamaConfig where
  "OllamaConfig_defaults =
     \<lparr>base_url = ''http://localhost:11434'', default_model = ''llama3.2'', timeout = 30\<rparr>"

text \<open>Truth value of an optional string: \<open>None\<close> and the empty string are false.\<close>

definition truthy :: "string option \<Rightarrow> bool" where
  "truthy s = (case s of None \<Rightarrow> False | Some x \<Rightarrow> x \<noteq> [])"

definition get_model_config :: "OllamaConfig \<Rightarrow> string option \<Rightarrow> pydict" where
  "get_model_config cfg model_name =
     (let m = (if truthy model_name then the model_name else default_model cfg)
      in [(''base_url'', PyStr (base_url cfg)),
          (''model'', PyStr m),
          (''timeout'', PyInt (timeout cfg)),
          (''stream'', PyBool False),
          (''temperature'', PyFloat (fl (7 / 10))),
          (''max_tokens'', PyInt 2048)])"

section \<open>agents/ollama\_agent.py\<close>

subsection \<open>The libraries the agent calls\<close>

text \<open>
  A tool is an object the agent only stores and hands on: the calculator of
  \<open>strands_tools\<close>, or any other tool, told apart by a name. The \<open>Agent\<close> of \<open>strands\<close>
  is the record of the arguments it was built from.
\<close>

datatype tool = calculator | Tool string

type_synonym kwargs = "(string \<times> pyval) list"

record strand_agent =
  sa_name :: string
  sa_tools :: "tool list"
  sa_kwargs :: kwargs

definition Agent :: "string \<Rightarrow> tool list \<Rightarrow> kwargs \<Rightarrow> strand_agent" where
  "Agent n ts kw = \<lparr>sa_name = n, sa_tools = ts, sa_kwargs = kw\<rparr>"

text \<open>
  An object that comes back from the client library is a mapping, or an object of
  another type (named) that does not support subscripting. \<open>subscript x k\<close> is
  \<open>x[k]\<close>.
\<close>

datatype 'a pyobj = Mapping "(string \<times> 'a) list" | Opaque string

fun subscript :: "'a pyobj \<Rightarrow> string \<Rightarrow> pyexc + 'a" where
  "subscript (Mapping d) k =
     (case map_of d k of None \<Rightarrow> Inl (KeyError k) | Some v \<Rightarrow> Inr v)"
| "subscript (Opaque ty) k =
     Inl (TypeError (repr_str ty @ '' object is not subscriptable''))"

text \<open>
  A chat response (and one chunk of a streamed response) maps \<open>message\<close> to a mapping
  whose \<open>content\<close> is text; the model listing maps \<open>models\<close> to a list of mappings whose
  \<open>name\<close> is text. Any of these keys may be missing in a malformed response.
\<close>

type_synonym chat_response = "string pyobj pyobj"

type_synonym list_response = "string pyobj list pyobj"

text \<open>The arguments of one call of the library's \<open>chat\<close>.\<close>

record chat_request =
  req_model :: string
  req_messages :: "pydict list"
  req_stream :: bool
  req_kwargs :: kwargs

text \<open>
  The model server seen through the client library. Each function either raises
  (\<open>Inl\<close>) or returns. A streaming call returns the chunks that arrive, in order, and
  then either ends (\<open>None\<close>) or raises while the consumer iterates (\<open>Some\<close>).
\<close>

record ollama =
  ollama_chat :: "chat_request \<Rightarrow> pyexc + chat_response"
  ollama_chat_stream :: "chat_request \<Rightarrow> pyexc + (chat_response list \<times> pyexc option)"
  ollama_async_chat :: "chat_request \<Rightarrow> pyexc + chat_response"
  ollama_show :: "string \<Rightarrow> pyexc + pydict"
  ollama_list :: "pyexc + list_response"

text \<open>
  A call \<open>f(a=x, **kwargs)\<close> raises \<open>TypeError\<close> before \<open>f\<close> runs when \<open>kwargs\<close> holds a
  keyword that the call also passes explicitly. \<open>duplicate_keyword\<close> is the first such
  keyword of \<open>kwargs\<close>, and \<open>multiple_values\<close> the exception, whose message starts with
  the qualified name of the called function (CPython 3.10 and later).
\<close>

definition duplicate_keyword :: "string list \<Rightarrow> kwargs \<Rightarrow> string option" where
  "duplicate_keyword explicit kw =
     (case filter (\<lambda>k. k \<in> set explicit) (map fst kw) of
        [] \<Rightarrow> None
      | k # _ \<Rightarrow> Some k)"

definition multiple_values :: "string \<Rightarrow> string \<Rightarrow> pyexc" where
  "multiple_values callee k =
     TypeError (callee @ ''() got multiple values for keyword argument '' @ repr_str k)"

text \<open>
  \<open>ollama.chat\<close> is the method \<open>chat\<close> of a \<open>Client\<close> of the library, and
  \<open>ollama.AsyncClient().chat\<close> that of an \<open>AsyncClient\<close>.
\<close>

definition Client_chat :: string where
  "Client_chat = ''ollama._client.Client.chat''"

definition AsyncClient_chat :: string where
  "AsyncClient_chat = ''ollama._client.AsyncClient.chat''"

subsection \<open>OllamaStrandAgent\<close>

record agent =
  name :: string
  model :: string
  tools :: "tool list"
  system_prompt :: "string option"
  config :: pydict
  strand_agent :: strand_agent

definition OllamaStrandAgent_init ::
  "OllamaConfig \<Rightarrow> string \<Rightarrow> string option \<Rightarrow> tool list option \<Rightarrow> string option \<Rightarrow> kwargs \<Rightarrow> agent" where
  "OllamaStrandAgent_init cfg n m ts sp kw =
     (let model' = (if truthy m then the m else default_model cfg);
          tools' = (case ts of None \<Rightarrow> [] | Some l \<Rightarrow> if l \<noteq> [] then l else [])
      in \<lparr>name = n,
          model = model',
          tools = tools',
          system_prompt = sp,
          config = get_model_config cfg (Some model'),
          strand_agent = Agent n tools' kw\<rparr>)"

text \<open>
  The statements that open \<open>chat\<close>, \<open>async_chat\<close> and \<open>stream_chat\<close> alike: the system
  message when \<open>self.system_prompt\<close> is true, then the user message.
\<close>

definition system_message :: "string \<Rightarrow> pydict" where
  "system_message prompt = [(''role'', PyStr ''system''), (''content'', PyStr prompt)]"

definition user_message :: "string \<Rightarrow> pydict" where
  "user_message message = [(''role'', PyStr ''user''), (''content'', PyStr message)]"

definition prepare_conversation :: "agent \<Rightarrow> string \<Rightarrow> pydict list" where
  "prepare_conversation self message =
     (if truthy (system_prompt self) then [system_message (the (system_prompt self))] else [])
     @ [user_message message]"

text \<open>\<open>x['message']['content']\<close>.\<close>

definition content_of :: "chat_response \<Rightarrow> pyexc + string" where
  "content_of response =
     (case subscript response ''message'' of
        Inl e \<Rightarrow> Inl e
      | Inr msg \<Rightarrow> subscript msg ''content'')"

text \<open>The text every handler returns: \<open>f"Error: {str(e)}"\<close>.\<close>

definition error_text :: "pyexc \<Rightarrow> string" where
  "error_text e = ''Error: '' @ str_exc e"

text \<open>
  A method returns the agent as the call leaves it, the requests it passed to the
  library's \<open>chat\<close>, in order, and its result. The body of each \<open>try\<close> block gives the
  requests and either the exception raised inside it or the value returned.
\<close>

definition self_after :: "agent \<times> 'b \<times> 'c \<Rightarrow> agent" where
  "self_after outcome = fst outcome"

definition requests_of :: "agent \<times> chat_request list \<times> 'c \<Rightarrow> chat_request list" where
  "requests_of outcome = fst (snd outcome)"

definition returned :: "agent \<times> chat_request list \<times> 'c \<Rightarrow> 'c" where
  "returned outcome = snd (snd outcome)"

definition chat_body :: "ollama \<Rightarrow> agent \<Rightarrow> string \<Rightarrow> kwargs \<Rightarrow> chat_request list \<times> (pyexc + string)" where
  "chat_body srv self message kw =
     (let messages = prepare_conversation self message
      in case duplicate_keyword [''model'', ''messages''] kw of
           Some k \<Rightarrow> ([], Inl (multiple_values Client_chat k))
         | None \<Rightarrow>
             (let request = \<lparr>req_model = model self, req_messages = messages,
                             req_stream = False, req_kwargs = kw\<rparr>
              in ([request],
                  case ollama_chat srv request of
                    Inl e \<Rightarrow> Inl e
                  | Inr response \<Rightarrow> content_of response)))"

definition chat :: "ollama \<Rightarrow> agent \<Rightarrow> string \<Rightarrow> kwargs \<Rightarrow> agent \<times> chat_request list \<times> string" where
  "chat srv self message kw =
     (case chat_body srv self message kw of
        (sent, Inr text) \<Rightarrow> (self, sent, text)
      | (sent, Inl e) \<Rightarrow> (self, sent, error_text e))"

definition async_chat_body :: "ollama \<Rightarrow> agent \<Rightarrow> string \<Rightarrow> kwargs \<Rightarrow> chat_request list \<times> (pyexc + string)" where
  "async_chat_body srv self message kw =
     (let messages = prepare_conversation self message
      in case duplicate_keyword [''model'', ''messages''] kw of
           Some k \<Rightarrow> ([], Inl (multiple_values AsyncClient_chat k))
         | None \<Rightarrow>
             (let request = \<lparr>req_model = model self, req_messages = messages,
                             req_stream = False, req_kwargs = kw\<rparr>
              in ([request],
                  case ollama_async_chat srv request of
                    Inl e \<Rightarrow> Inl e
                  | Inr response \<Rightarrow> content_of response)))"

text \<open>The value of awaiting \<open>async_chat\<close> to its end.\<close>

definition async_chat :: "ollama \<Rightarrow> agent \<Rightarrow> string \<Rightarrow> kwargs \<Rightarrow> agent \<times> chat_request list \<times> string" where
  "async_chat srv self message kw =
     (case async_chat_body srv self message kw of
        (sent, Inr text) \<Rightarrow> (self, sent, text)
      | (sent, Inl e) \<Rightarrow> (self, sent, error_text e))"

text \<open>
  The \<open>for\<close> loop of \<open>stream_chat\<close>: the fragments yielded, and the exception that ends
  the loop, if one does (a chunk without the content, or the failure of the stream).
\<close>

fun stream_loop :: "chat_response list \<Rightarrow> pyexc option \<Rightarrow> string list \<times> pyexc option" where
  "stream_loop [] fin = ([], fin)"
| "stream_loop (chunk # chunks) fin =
     (case content_of chunk of
        Inl e \<Rightarrow> ([], Some e)
      | Inr fragment \<Rightarrow>
          (case stream_loop chunks fin of (yielded, raised) \<Rightarrow> (fragment # yielded, raised)))"

definition stream_chat_body ::
  "ollama \<Rightarrow> agent \<Rightarrow> string \<Rightarrow> kwargs \<Rightarrow> chat_request list \<times> string list \<times> pyexc option" where
  "stream_chat_body srv self message kw =
     (let messages = prepare_conversation self message
      in case duplicate_keyword [''model'', ''messages'', ''stream''] kw of
           Some k \<Rightarrow> ([], [], Some (multiple_values Client_chat k))
         | None \<Rightarrow>
             (let request = \<lparr>req_model = model self, req_messages = messages,
                             req_stream = True, req_kwargs = kw\<rparr>
              in ([request],
                  case ollama_chat_stream srv request of
                    Inl e \<Rightarrow> ([], Some e)
                  | Inr (chunks, fin) \<Rightarrow> stream_loop chunks fin)))"

text \<open>
  The fragments a consumer receives when it iterates the generator to its end: what
  the body yields and, when the body raises, the one fragment the handler yields.
\<close>

definition stream_chat :: "ollama \<Rightarrow> agent \<Rightarrow> string \<Rightarrow> kwargs \<Rightarrow> agent \<times> chat_request list \<times> string list" where
  "stream_chat srv self message kw =
     (case stream_chat_body srv self message kw of
        (sent, yielded, None) \<Rightarrow> (self, sent, yielded)
      | (sent, yielded, Some e) \<Rightarrow> (self, sent, yielded @ [error_text e]))"

definition get_model_info :: "ollama \<Rightarrow> agent \<Rightarrow> agent \<times> pydict" where
  "get_model_info srv self =
     (case ollama_show srv (model self) of
        Inr info \<Rightarrow> (self, info)
      | Inl e \<Rightarrow> (self, [(''error'', PyStr (str_exc e))]))"

text \<open>The comprehension \<open>[model['name'] for model in ...]\<close>.\<close>

fun model_names :: "string pyobj list \<Rightarrow> pyexc + string list" where
  "model_names [] = Inr []"
| "model_names (m # ms) =
     (case subscript m ''name'' of
        Inl e \<Rightarrow> Inl e
      | Inr n \<Rightarrow> (case model_names ms of Inl e \<Rightarrow> Inl e | Inr ns \<Rightarrow> Inr (n # ns)))"

definition list_available_models_body :: "ollama \<Rightarrow> pyexc + string list" where
  "list_available_models_body srv =
     (case ollama_list srv of
        Inl e \<Rightarrow> Inl e
      | Inr models \<Rightarrow>
          (case subscript models ''models'' of
             Inl e \<Rightarrow> Inl e
           | Inr entries \<Rightarrow> model_names entries))"

definition list_available_models :: "ollama \<Rightarrow> agent \<Rightarrow> agent \<times> string list" where
  "list_available_models srv self =
     (case list_available_models_body srv of
        Inr names \<Rightarrow> (self, names)
      | Inl e \<Rightarrow> (self, []))"

definition add_tool :: "agent \<Rightarrow> tool \<Rightarrow> agent" where
  "add_tool self t =
     (let appended = tools self @ [t]
      in self\<lparr>tools := appended, strand_agent := Agent (name self) appended []\<rparr>)"

definition agent_str :: "agent \<Rightarrow> string" where
  "agent_str self = ''OllamaStrandAgent(name='' @ name self @ '', model='' @ model self @ '')''"

text \<open>
  The methods of the class that a caller can invoke on a constructed agent, and the
  agent each call leaves behind.
\<close>

datatype method_call =
    Chat string kwargs
  | AsyncChat string kwargs
  | StreamChat string kwargs
  | GetModelInfo
  | ListAvailableModels
  | AddTool tool
  | Str
  | Repr

fun invoke :: "ollama \<Rightarrow> agent \<Rightarrow> method_call \<Rightarrow> agent" where
  "invoke srv self (Chat message kw) = fst (chat srv self message kw)"
| "invoke srv self (AsyncChat message kw) = fst (async_chat srv self message kw)"
| "invoke srv self (StreamChat message kw) = fst (stream_chat srv self message kw)"
| "invoke srv self GetModelInfo = fst (get_model_info srv self)"
| "invoke srv self ListAvailableModels = fst (list_available_models srv self)"
| "invoke srv self (AddTool t) = add_tool self t"
| "invoke srv self Str = self"
| "invoke srv self Repr = self"

section \<open>agents/specialized\_agents.py\<close>

text \<open>
  Each subclass constructor takes the model, \<open>None\<close> when the caller leaves the
  argument out and the default of the class applies.
\<close>

definition MathAgent_prompt :: string where
  "MathAgent_prompt =
     ''\<newline>'' @
     ''        You are a mathematical expert assistant. You excel at:\<newline>'' @
     ''        - Solving complex mathematical problems\<newline>'' @
     ''        - Explaining mathematical concepts clearly\<newline>'' @
     ''        - Performing calculations accurately\<newline>'' @
     ''        - Working with statistics, algebra, calculus, and more\<newline>'' @
     ''        \<newline>'' @
     ''        Always show your work step-by-step and use the calculator tool when needed.\<newline>'' @
     ''        ''"

definition ResearchAgent_prompt :: string where
  "ResearchAgent_prompt =
     ''\<newline>'' @
     ''        You are a research specialist assistant. You excel at:\<newline>'' @
     ''        - Finding and analyzing information from various sources\<newline>'' @
     ''        - Summarizing complex topics\<newline>'' @
     ''        - Fact-checking and verification\<newline>'' @
     ''        - Providing comprehensive research reports\<newline>'' @
     ''        \<newline>'' @
     ''        Always cite your sources and provide accurate, up-to-date information.\<newline>'' @
     ''        ''"

definition CodeAgent_prompt :: string where
  "CodeAgent_prompt =
     ''\<newline>'' @
     ''        You are a programming expert assistant. You excel at:\<newline>'' @
     ''        - Writing clean, efficient code in multiple languages\<newline>'' @
     ''        - Debugging and troubleshooting code issues\<newline>'' @
     ''        - Explaining programming concepts\<newline>'' @
     ''        - Code review and optimization\<newline>'' @
     ''        - Best practices and design patterns\<newline>'' @
     ''        \<newline>'' @
     ''        Always provide working code examples with clear explanations.\<newline>'' @
     ''        ''"

definition AnalysisAgent_prompt :: string where
  "AnalysisAgent_prompt =
     ''\<newline>'' @
     ''        You are a data analysis expert assistant. You excel at:\<newline>'' @
     ''        - Analyzing datasets and finding patterns\<newline>'' @
     ''        - Creating data visualizations\<newline>'' @
     ''        - Statistical analysis and interpretation\<newline>'' @
     ''        - Business intelligence and reporting\<newline>'' @
     ''        - Machine learning concepts\<newline>'' @
     ''        \<newline>'' @
     ''        Always provide clear insights with supporting evidence.\<newline>'' @
     ''        ''"

definition CreativeAgent_prompt :: string where
  "CreativeAgent_prompt =
     ''\<newline>'' @
     ''        You are a creative writing expert assistant. You excel at:\<newline>'' @
     ''        - Creative writing and storytelling\<newline>'' @
     ''        - Content creation for various formats\<newline>'' @
     ''        - Brainstorming and ideation\<newline>'' @
     ''        - Editing and improving existing content\<newline>'' @
     ''        - Adapting tone and style for different audiences\<newline>'' @
     ''        \<newline>'' @
     ''        Always be creative, engaging, and original in your responses.\<newline>'' @
     ''        ''"

definition MathAgent :: "OllamaConfig \<Rightarrow> string option \<Rightarrow> agent" where
  "MathAgent cfg m =
     OllamaStrandAgent_init cfg ''MathAgent''
       (Some (case m of None \<Rightarrow> ''llama3.2'' | Some x \<Rightarrow> x))
       (Some [calculator]) (Some MathAgent_prompt) []"

definition ResearchAgent :: "OllamaConfig \<Rightarrow> string option \<Rightarrow> agent" where
  "ResearchAgent cfg m =
     OllamaStrandAgent_init cfg ''ResearchAgent''
       (Some (case m of None \<Rightarrow> ''llama3.2'' | Some x \<Rightarrow> x))
       (Some []) (Some ResearchAgent_prompt) []"

definition CodeAgent :: "OllamaConfig \<Rightarrow> string option \<Rightarrow> agent" where
  "CodeAgent cfg m =
     OllamaStrandAgent_init cfg ''CodeAgent''
       (Some (case m of None \<Rightarrow> ''codellama'' | Some x \<Rightarrow> x))
       (Some []) (Some CodeAgent_prompt) []"

definition AnalysisAgent :: "OllamaConfig \<Rightarrow> string option \<Rightarrow> agent" where
  "AnalysisAgent cfg m =
     OllamaStrandAgent_init cfg ''AnalysisAgent''
       (Some (case m of None \<Rightarrow> ''llama3.2'' | Some x \<Rightarrow> x))
       (Some [calculator]) (Some AnalysisAgent_prompt) []"

definition CreativeAgent :: "OllamaConfig \<Rightarrow> string option \<Rightarrow> agent" where
  "CreativeAgent cfg m =
     OllamaStrandAgent_init cfg ''CreativeAgent''
       (Some (case m of None \<Rightarrow> ''llama3.2'' | Some x \<Rightarrow> x))
       (Some []) (Some CreativeAgent_prompt) []"

definition agents :: "(string \<times> (OllamaConfig \<Rightarrow> string option \<Rightarrow> agent)) list" where
  "agents =
     [(''math'', MathAgent),
      (''research'', ResearchAgent),
      (''code'', CodeAgent),
      (''analysis'', AnalysisAgent),
      (''creative'', CreativeAgent)]"

text \<open>\<open>str\<close> of a list of strings, as the message of \<open>create_agent\<close> prints the keys.\<close>

fun join_repr :: "string list \<Rightarrow> string" where
  "join_repr [] = []"
| "join_repr [k] = repr_str k"
| "join_repr (k # ks) = repr_str k @ '', '' @ join_repr ks"

definition str_list :: "string list \<Rightarrow> string" where
  "str_list ks = ''['' @ join_repr ks @ '']''"

definition create_agent :: "OllamaConfig \<Rightarrow> string \<Rightarrow> string option \<Rightarrow> pyexc + agent" where
  "create_agent cfg agent_type m =
     (if \<not> has_key agents (lower agent_type)
      then Inl (ValueError (''Unknown agent type: '' @ agent_type @ ''. Available types: ''
                            @ str_list (map fst agents)))
      else let agent_class = the (map_of agents (lower agent_type))
           in if truthy m then Inr (agent_class cfg m) else Inr (agent_class cfg None))"

section \<open>Example servers and agents\<close>

definition reply :: "string \<Rightarrow> chat_response" where
  "reply text = Mapping [(''message'', Mapping [(''role'', ''assistant''), (''content'', text)])]"

definition connection_error :: pyexc where
  "connection_error = RaisedError ''ConnectError'' ''[Errno 111] Connection refused''"

text \<open>A server with two models that answers every chat the same way.\<close>

definition answering_server :: ollama where
  "answering_server =
     \<lparr>ollama_chat = (\<lambda>r. Inr (reply ''The answer is 4'')),
      ollama_chat_stream =
        (\<lambda>r. Inr ([reply ''The'', reply '' answer'', reply '' is 4''], None)),
      ollama_async_chat = (\<lambda>r. Inr (reply ''The answer is 4'')),
      ollama_show = (\<lambda>m. Inr [(''modelfile'', PyStr m)]),
      ollama_list =
        Inr (Mapping [(''models'',
               [Mapping [(''name'', ''llama3.2'')], Mapping [(''name'', ''codellama'')]])])\<rparr>"

text \<open>
  A server that cannot be reached, except that a streamed answer starts and then
  breaks after two chunks.
\<close>

definition failing_server :: ollama where
  "failing_server =
     \<lparr>ollama_chat = (\<lambda>r. Inl connection_error),
      ollama_chat_stream =
        (\<lambda>r. Inr ([reply ''The'', reply '' answer''], Some connection_error)),
      ollama_async_chat = (\<lambda>r. Inl connection_error),
      ollama_show = (\<lambda>m. Inl connection_error),
      ollama_list = Inl connection_error\<rparr>"

text \<open>
  A server whose listing names each model under the key \<open>model\<close> and has no key
  \<open>name\<close>, as later versions of the client library report it.
\<close>

definition renaming_server :: ollama where
  "renaming_server =
     answering_server
       \<lparr>ollama_list :=
          Inr (Mapping [(''models'',
                 [Mapping [(''model'', ''llama3.2'')], Mapping [(''model'', ''codellama'')]])])\<rparr>"

definition plain_agent :: "string option \<Rightarrow> agent" where
  "plain_agent sp = OllamaStrandAgent_init OllamaConfig_defaults ''helper'' None None sp []"

section \<open>Properties of the tools\<close>

subsection \<open>Text analysis\<close>

lemma text_analyzer_hello_value:
  "text_analyzer_tool ''Hello world. Hello again.'' =
     [(''character_count'', PyInt 25), (''word_count'', PyInt 4),
      (''sentence_count'', PyInt 2), (''paragraph_count'', PyInt 1),
      (''average_words_per_sentence'', PyFloat (Finite 2)),
      (''most_common_words'',
         PyList
          [PyDict [(''word'', PyStr ''hello''), (''count'', PyInt 2)],
           PyDict [(''word'', PyStr ''world''), (''count'', PyInt 1)],
           PyDict [(''word'', PyStr ''again''), (''count'', PyInt 1)]])]"
  by code_simp

text \<open>
  C8. On the input \<open>"Hello world. Hello again."\<close> the analysis has \<open>word_count\<close> 4 and
  \<open>sentence_count\<close> 2, and the first entry of \<open>most_common_words\<close> is the word
  \<open>hello\<close> with count 2.
\<close>

theorem text_analyzer_hello:
  "map_of (text_analyzer_tool ''Hello world. Hello again.'') ''word_count'' = Some (PyInt 4)
   \<and> map_of (text_analyzer_tool ''Hello world. Hello again.'') ''sentence_count'' = Some (PyInt 2)
   \<and> (\<exists>rest. map_of (text_analyzer_tool ''Hello world. Hello again.'') ''most_common_words''
          = Some (PyList (PyDict [(''word'', PyStr ''hello''), (''count'', PyInt 2)] # rest)))"
  by (simp add: text_analyzer_hello_value)

subsection \<open>Overflow of the rounding\<close>

text \<open>The exponent found by \<open>ilog2\<close> is not too small, so a rational of at least
  \<open>2 powi 1024\<close> rounds to the infinity.\<close>

lemma ilog2_upper:
  assumes "0 < x"
  shows "x < 2 powi (ilog2 x + 1)"
proof -
  obtain p q where pq: "quotient_of x = (p, q)" by (cases "quotient_of x")
  have q: "0 < q" using quotient_of_denom_pos [OF pq] .
  have x: "x = of_int p / of_int q" using quotient_of_div [OF pq] .
  have p: "0 < p"
    using assms q unfolding x by (simp add: zero_less_divide_iff)
  have bp: "of_int p < (2::rat) powi (bitlen p)"
  proof -
    have "p < 2 ^ nat (bitlen p)" using bitlen_bounds [OF p] by simp
    then have "(of_int p :: rat) < of_int (2 ^ nat (bitlen p))" by (simp only: of_int_less_iff)
    moreover have "0 \<le> bitlen p" by (rule bitlen_nonneg)
    ultimately show ?thesis by (simp add: power_int_def)
  qed
  have bq: "(2::rat) powi (bitlen q - 1) \<le> of_int q"
  proof -
    have "2 ^ nat (bitlen q - 1) \<le> q" using bitlen_bounds [OF q] by simp
    then have "(of_int (2 ^ nat (bitlen q - 1)) :: rat) \<le> of_int q" by (simp only: of_int_le_iff)
    moreover have "0 < bitlen q"
      using q bitlen_nonneg [of q] bitlen_eq_zero_iff [of q] by linarith
    ultimately show ?thesis by (simp add: power_int_def)
  qed
  have pos: "(0::rat) < 2 powi (bitlen q - 1)" by simp
  have "x < 2 powi (bitlen p) / 2 powi (bitlen q - 1)"
    unfolding x by (rule frac_less) (use p bp bq pos in simp_all)
  also have "\<dots> = 2 powi (bitlen p - (bitlen q - 1))"
    by (rule power_int_diff [symmetric]) simp
  also have "bitlen p - (bitlen q - 1) = bitlen p - bitlen q + 1"
    by simp
  finally have u: "x < 2 powi (bitlen p - bitlen q + 1)" .
  show ?thesis
  proof (cases "(2::rat) powi (bitlen p - bitlen q) \<le> x")
    case True
    then show ?thesis using u by (simp add: ilog2_def pq)
  next
    case False
    then show ?thesis by (simp add: ilog2_def pq)
  qed
qed

lemma fl_overflow:
  assumes "2 powi 1024 \<le> x"
  shows "fl x = PosInf"
proof -
  have pos: "0 < x"
    using assms by (meson less_le_trans zero_less_numeral zero_less_power_int)
  have "1023 < ilog2 x"
  proof (rule ccontr)
    assume "\<not> 1023 < ilog2 x"
    then have "ilog2 x + 1 \<le> 1024" by simp
    then have "(2::rat) powi (ilog2 x + 1) \<le> 2 powi 1024"
      by (intro power_int_increasing) simp_all
    with ilog2_upper [OF pos] assms show False by simp
  qed
  then show ?thesis
    using pos by (simp add: fl_def Let_def)
qed

lemma huge_quotient: "(2::rat) powi 1024 \<le> of_int (10 ^ 400 * 9) / of_int 5"
  by (simp add: power_int_def)


subsection \<open>Unit conversion\<close>

lemma fdiv_Finite_nonzero: "b \<noteq> 0 \<Longrightarrow> \<exists>r. fdiv x (Finite b) = Inr r"
  by (cases x) simp_all

lemma float_of_small_ints:
  "float_of_int 32 = Inr (Finite 32)"
  "float_of_int 5 = Inr (Finite 5)"
  "float_of_int 9 = Inr (Finite 9)"
  by code_simp+

text \<open>With a float on the left, the operations of \<open>convert_temperature\<close> give a float.\<close>

lemma float_steps:
  "num_sub (FloatNum x) (IntNum 32) = Inr (FloatNum (fsub x (Finite 32)))"
  "num_mul (FloatNum x) (IntNum 5) = Inr (FloatNum (fmul x (Finite 5)))"
  "num_mul (FloatNum x) (IntNum 9) = Inr (FloatNum (fmul x (Finite 9)))"
  "num_add (FloatNum x) (IntNum 32) = Inr (FloatNum (fadd x (Finite 32)))"
  "num_sub (FloatNum x) (FloatNum c) = Inr (FloatNum (fsub x c))"
  "num_add (FloatNum x) (FloatNum c) = Inr (FloatNum (fadd x c))"
  by (simp_all add: num_sub_def num_mul_def num_add_def and_then_def float_of_small_ints
        del: fmul.simps fadd.simps)

lemma float_division_steps:
  "\<exists>r. num_truediv (FloatNum x) (IntNum 9) = Inr (FloatNum r)"
  "\<exists>r. num_truediv (FloatNum x) (IntNum 5) = Inr (FloatNum r)"
proof -
  obtain a where "fdiv x (Finite 9) = Inr a"
    using fdiv_Finite_nonzero [of 9] by fastforce
  then show "\<exists>r. num_truediv (FloatNum x) (IntNum 9) = Inr (FloatNum r)"
    by (simp add: num_truediv_def and_then_def float_of_small_ints del: fdiv.simps)
  obtain b where "fdiv x (Finite 5) = Inr b"
    using fdiv_Finite_nonzero [of 5] by fastforce
  then show "\<exists>r. num_truediv (FloatNum x) (IntNum 5) = Inr (FloatNum r)"
    by (simp add: num_truediv_def and_then_def float_of_small_ints del: fdiv.simps)
qed

text \<open>On a float, no step of \<open>convert_temperature\<close> raises.\<close>

lemma convert_temperature_float_returns:
  "\<exists>r. convert_temperature (FloatNum x) from_unit to_unit = Inr (FloatNum r)"
proof -
  obtain a where a:
    "num_truediv (FloatNum (fmul (fsub x (Finite 32)) (Finite 5))) (IntNum 9) = Inr (FloatNum a)"
    using float_division_steps(1) by blast
  have "\<exists>c.
    (if lower from_unit = ''fahrenheit''
     then and_then (num_sub (FloatNum x) (IntNum 32)) (\<lambda>a.
          and_then (num_mul a (IntNum 5)) (\<lambda>b.
          num_truediv b (IntNum 9)))
     else if lower from_unit = ''kelvin''
     then num_sub (FloatNum x) (FloatNum (fl (27315 / 100)))
     else Inr (FloatNum x)) = Inr (FloatNum c)"
    by (simp add: float_steps a and_then_def)
  then obtain c where c:
    "(if lower from_unit = ''fahrenheit''
      then and_then (num_sub (FloatNum x) (IntNum 32)) (\<lambda>a.
           and_then (num_mul a (IntNum 5)) (\<lambda>b.
           num_truediv b (IntNum 9)))
      else if lower from_unit = ''kelvin''
      then num_sub (FloatNum x) (FloatNum (fl (27315 / 100)))
      else Inr (FloatNum x)) = Inr (FloatNum c)"
    by blast
  obtain d where d: "num_truediv (FloatNum (fmul c (Finite 9))) (IntNum 5) = Inr (FloatNum d)"
    using float_division_steps(2) by blast
  show ?thesis
    unfolding convert_temperature_def c
    by (simp add: float_steps d and_then_def)
qed

lemma temperature_result:
  assumes "convert_temperature v from_unit to_unit = Inr r"
  shows "unit_converter_tool v from_unit to_unit ''temperature'' =
           conversion_result v from_unit r to_unit ''temperature''"
  using assms by (simp add: unit_converter_tool_def unit_converter_body_def and_then_def)

lemma temperature_error:
  assumes "convert_temperature v from_unit to_unit = Inl e"
  shows "unit_converter_tool v from_unit to_unit ''temperature'' = [(''error'', PyStr (str_exc e))]"
  using assms by (simp add: unit_converter_tool_def unit_converter_body_def and_then_def)

lemma conversion_result_fields:
  "map_of (conversion_result v from_unit r to_unit unit_type) ''converted_value''
     = Some (num_val (num_round r 6))"
  "\<not> has_key (conversion_result v from_unit r to_unit unit_type) ''error''"
  by (simp_all add: conversion_result_def has_key_def)

lemma from_unit_default:
  assumes "lower from_unit \<notin> {''fahrenheit'', ''kelvin''}"
  shows "convert_temperature v from_unit to_unit = convert_temperature v ''celsius'' to_unit"
proof -
  have "lower ''celsius'' = ''celsius''" by code_simp
  with assms show ?thesis by (simp add: convert_temperature_def)
qed

lemma to_unit_default:
  assumes "lower to_unit \<notin> {''fahrenheit'', ''kelvin''}"
  shows "convert_temperature v from_unit to_unit = convert_temperature v from_unit ''celsius''"
proof -
  have "lower ''celsius'' = ''celsius''" by code_simp
  with assms show ?thesis
    by (simp add: convert_temperature_def and_then_def split: sum.splits)
qed

lemma unknown_unit_error:
  assumes "unit_type \<noteq> ''temperature''"
    and "\<not> known_unit unit_type from_unit \<or> \<not> known_unit unit_type to_unit"
  shows "unit_converter_tool v from_unit to_unit unit_type
           = [(''error'', PyStr (''Unknown unit type: '' @ unit_type))]
       \<or> unit_converter_tool v from_unit to_unit unit_type
           = [(''error'', PyStr (''Unknown unit for '' @ unit_type))]"
proof (cases "has_key conversions unit_type")
  case False
  then show ?thesis
    using assms(1) by (simp add: unit_converter_tool_def unit_converter_body_def)
next
  case True
  with assms(2) have "\<not> has_key (the (map_of conversions unit_type)) from_unit
      \<or> \<not> has_key (the (map_of conversions unit_type)) to_unit"
    by (simp add: known_unit_def)
  then show ?thesis
    using assms(1) True by (simp add: unit_converter_tool_def unit_converter_body_def Let_def)
qed

lemma celsius_to_fahrenheit_value:
  "unit_converter_tool (IntNum 0) ''celsius'' ''fahrenheit'' ''temperature'' =
     [(''original_value'', PyInt 0), (''original_unit'', PyStr ''celsius''),
      (''converted_value'', PyFloat (Finite 32)), (''converted_unit'', PyStr ''fahrenheit''),
      (''unit_type'', PyStr ''temperature'')]"
  by code_simp

lemma centimeter_to_meter_value:
  "unit_converter_tool (IntNum 100) ''centimeter'' ''meter'' ''length'' =
     [(''original_value'', PyInt 100), (''original_unit'', PyStr ''centimeter''),
      (''converted_value'', PyFloat (Finite 1)), (''converted_unit'', PyStr ''meter''),
      (''unit_type'', PyStr ''length'')]"
  by code_simp

lemma rankine_to_fahrenheit_value:
  "unit_converter_tool (IntNum 0) ''rankine'' ''fahrenheit'' ''temperature'' =
     [(''original_value'', PyInt 0), (''original_unit'', PyStr ''rankine''),
      (''converted_value'', PyFloat (Finite 32)), (''converted_unit'', PyStr ''fahrenheit''),
      (''unit_type'', PyStr ''temperature'')]"
  by code_simp

lemma rankine_to_fahrenheit_conversion:
  "convert_temperature (IntNum 0) ''celsius'' ''fahrenheit'' = Inr (FloatNum (Finite 32))"
  "num_round (FloatNum (Finite 32)) 6 = FloatNum (Finite 32)"
  by code_simp+

lemma huge_int_conversion:
  "convert_temperature (IntNum (10 ^ 400)) ''celsius'' ''fahrenheit''
     = Inl (OverflowError ''integer division result too large for a float'')"
proof -
  have l: "lower ''celsius'' = ''celsius''" "lower ''fahrenheit'' = ''fahrenheit''"
    by code_simp+
  have o: "truediv_int (10 ^ 400 * 9) 5
      = Inl (OverflowError ''integer division result too large for a float'')"
    using fl_overflow [OF huge_quotient] by (simp only: truediv_int_def) simp
  have m: "num_mul (IntNum (10 ^ 400)) (IntNum 9) = Inr (IntNum (10 ^ 400 * 9))"
    by (simp only: num_mul_def binop.simps)
  have d: "num_truediv (IntNum (10 ^ 400 * 9)) (IntNum 5)
      = Inl (OverflowError ''integer division result too large for a float'')"
    by (simp only: num_truediv_def binop.simps o and_then_def sum.case)
  have c: "(''celsius'' = ''fahrenheit'') = False" "(''celsius'' = ''kelvin'') = False"
      "(''fahrenheit'' = ''fahrenheit'') = True"
    by simp_all
  show ?thesis
    by (simp only: convert_temperature_def l c if_False if_True and_then_def sum.case m d)
qed

lemma rankine_lower: "lower ''rankine'' = ''rankine''"
  by code_simp

lemma rankine_not_in_table: "\<not> known_unit ''temperature'' ''rankine''"
  by code_simp

lemma furlong_not_in_table: "\<not> known_unit ''length'' ''furlong''"
  by code_simp

text \<open>
  C2. Converting 0 from \<open>celsius\<close> to \<open>fahrenheit\<close> gives the converted value 32.0 and
  converting 100 from \<open>centimeter\<close> to \<open>meter\<close> gives 1.0, as the claim says
  (\<open>unit_converter_examples\<close>), and for the unit types \<open>length\<close> and \<open>weight\<close> an unknown
  unit name gives a mapping with an \<open>error\<close> field and no \<open>converted_value\<close>
  (\<open>other_unit_types_reject_unknown_units\<close>). For the unit type \<open>temperature\<close> the code
  does not do what the claim says: \<open>rankine\<close> is none of the three units that
  \<open>convert_temperature\<close> documents and is not a key of the table of \<open>temperature\<close>,
  yet converting 0 from it gives a mapping with a \<open>converted_value\<close>, 32.0, and without an
  \<open>error\<close> field.
\<close>

theorem unknown_temperature_unit_accepted:
  "lower ''rankine'' \<notin> {''celsius'', ''fahrenheit'', ''kelvin''}
   \<and> \<not> known_unit ''temperature'' ''rankine''
   \<and> \<not> has_key (unit_converter_tool (IntNum 0) ''rankine'' ''fahrenheit'' ''temperature'') ''error''
   \<and> map_of (unit_converter_tool (IntNum 0) ''rankine'' ''fahrenheit'' ''temperature'')
        ''converted_value'' = Some (PyFloat (Finite 32))"
  by (simp add: rankine_lower rankine_not_in_table rankine_to_fahrenheit_value has_key_def)

lemma unit_converter_examples:
  "map_of (unit_converter_tool (IntNum 0) ''celsius'' ''fahrenheit'' ''temperature'')
      ''converted_value'' = Some (PyFloat (Finite 32))"
  "map_of (unit_converter_tool (IntNum 100) ''centimeter'' ''meter'' ''length'')
      ''converted_value'' = Some (PyFloat (Finite 1))"
  by (simp_all add: celsius_to_fahrenheit_value centimeter_to_meter_value)

lemma other_unit_types_reject_unknown_units:
  assumes "unit_type \<noteq> ''temperature''"
    and "\<not> known_unit unit_type from_unit \<or> \<not> known_unit unit_type to_unit"
  shows "has_key (unit_converter_tool v from_unit to_unit unit_type) ''error''"
    and "\<not> has_key (unit_converter_tool v from_unit to_unit unit_type) ''converted_value''"
  using unknown_unit_error [OF assms, of v] by (auto simp: has_key_def)

text \<open>
  C9, as stated, fails: with the int \<open>10 ** 400\<close> and the unit name \<open>rankine\<close>, whose
  lower-case form is neither \<open>fahrenheit\<close> nor \<open>kelvin\<close>, the division of the conversion
  to Fahrenheit raises \<open>OverflowError\<close>, and the mapping returned has an \<open>error\<close> field and
  no \<open>converted_value\<close>.
\<close>

theorem huge_int_gives_error:
  "lower ''rankine'' \<notin> {''fahrenheit'', ''kelvin''}
   \<and> has_key (unit_converter_tool (IntNum (10 ^ 400)) ''rankine'' ''fahrenheit'' ''temperature'')
        ''error''
   \<and> \<not> has_key (unit_converter_tool (IntNum (10 ^ 400)) ''rankine'' ''fahrenheit'' ''temperature'')
        ''converted_value''"
proof -
  have h: "lower ''rankine'' \<notin> {''fahrenheit'', ''kelvin''}"
    by (simp add: rankine_lower)
  have "convert_temperature (IntNum (10 ^ 400)) ''rankine'' ''fahrenheit''
      = Inl (OverflowError ''integer division result too large for a float'')"
    by (simp only: from_unit_default [OF h] huge_int_conversion)
  from temperature_error [OF this] h show ?thesis
    by (simp add: has_key_def)
qed

text \<open>
  C9, amended. For the unit type \<open>temperature\<close>, a \<open>from_unit\<close> whose lower-case form is
  neither \<open>fahrenheit\<close> nor \<open>kelvin\<close> is read as Celsius, and so is such a \<open>to_unit\<close>: the
  conversion is the one the name \<open>celsius\<close> gives, and no unit name is rejected. Whenever
  the conversion returns a number, the mapping has as \<open>converted_value\<close> that number
  rounded to six places and has no \<open>error\<close> field; it always returns one when the value
  is a float. When the arithmetic raises (an int too large for a float), the mapping is
  the single \<open>error\<close> field with the message of the exception.
\<close>

theorem temperature_unknown_unit_is_celsius:
  "(lower from_unit \<notin> {''fahrenheit'', ''kelvin''} \<longrightarrow>
      convert_temperature v from_unit to_unit = convert_temperature v ''celsius'' to_unit)
   \<and> (lower to_unit \<notin> {''fahrenheit'', ''kelvin''} \<longrightarrow>
      convert_temperature v from_unit to_unit = convert_temperature v from_unit ''celsius'')
   \<and> (convert_temperature v from_unit to_unit = Inr r \<longrightarrow>
      map_of (unit_converter_tool v from_unit to_unit ''temperature'') ''converted_value''
        = Some (num_val (num_round r 6))
      \<and> \<not> has_key (unit_converter_tool v from_unit to_unit ''temperature'') ''error'')
   \<and> (convert_temperature v from_unit to_unit = Inl e \<longrightarrow>
      unit_converter_tool v from_unit to_unit ''temperature'' = [(''error'', PyStr (str_exc e))])
   \<and> (\<exists>c. convert_temperature (FloatNum x) from_unit to_unit = Inr (FloatNum c))"
proof -
  have "map_of (unit_converter_tool v from_unit to_unit ''temperature'') ''converted_value''
        = Some (num_val (num_round r 6))
      \<and> \<not> has_key (unit_converter_tool v from_unit to_unit ''temperature'') ''error''"
    if "convert_temperature v from_unit to_unit = Inr r"
    by (simp only: temperature_result [OF that] conversion_result_fields not_False_eq_True)
  then show ?thesis
    using from_unit_default to_unit_default temperature_error
      convert_temperature_float_returns
    by blast
qed

theorem temperature_unknown_unit_is_celsius_witness:
  "lower ''rankine'' \<notin> {''fahrenheit'', ''kelvin''}
   \<and> map_of (unit_converter_tool (IntNum 0) ''rankine'' ''fahrenheit'' ''temperature'')
        ''converted_value'' = Some (PyFloat (Finite 32))
   \<and> \<not> has_key (unit_converter_tool (IntNum 0) ''rankine'' ''fahrenheit'' ''temperature'') ''error''
   \<and> unit_converter_tool (IntNum (10 ^ 400)) ''celsius'' ''fahrenheit'' ''temperature''
        = [(''error'', PyStr ''integer division result too large for a float'')]"
proof -
  have h: "lower ''rankine'' \<notin> {''fahrenheit'', ''kelvin''}"
    by (simp add: rankine_lower)
  note c = rankine_to_fahrenheit_conversion
  from temperature_unknown_unit_is_celsius
         [where from_unit = "''rankine''" and v = "IntNum 0" and to_unit = "''fahrenheit''"
            and r = "FloatNum (Finite 32)"]
       h c
  have "map_of (unit_converter_tool (IntNum 0) ''rankine'' ''fahrenheit'' ''temperature'')
        ''converted_value'' = Some (PyFloat (Finite 32))
      \<and> \<not> has_key (unit_converter_tool (IntNum 0) ''rankine'' ''fahrenheit'' ''temperature'')
          ''error''"
    by simp
  moreover
  from temperature_unknown_unit_is_celsius
         [where from_unit = "''celsius''" and v = "IntNum (10 ^ 400)" and to_unit = "''fahrenheit''"
            and e = "OverflowError ''integer division result too large for a float''"]
       huge_int_conversion
  have "unit_converter_tool (IntNum (10 ^ 400)) ''celsius'' ''fahrenheit'' ''temperature''
      = [(''error'', PyStr ''integer division result too large for a float'')]"
    by simp
  ultimately show ?thesis
    using h by simp
qed

section \<open>Properties of the agent\<close>

subsection \<open>The three chat methods, case by case\<close>

lemma chat_cases:
  "chat srv self message kw =
     (case duplicate_keyword [''model'', ''messages''] kw of
        Some k \<Rightarrow> (self, [], error_text (multiple_values Client_chat k))
      | None \<Rightarrow>
          (self,
           [\<lparr>req_model = model self, req_messages = prepare_conversation self message,
             req_stream = False, req_kwargs = kw\<rparr>],
           case ollama_chat srv
                  \<lparr>req_model = model self, req_messages = prepare_conversation self message,
                   req_stream = False, req_kwargs = kw\<rparr> of
             Inl e \<Rightarrow> error_text e
           | Inr response \<Rightarrow>
               (case content_of response of Inl e \<Rightarrow> error_text e | Inr text \<Rightarrow> text)))"
  by (simp add: chat_def chat_body_def Let_def split: option.splits sum.splits)

lemma async_chat_cases:
  "async_chat srv self message kw =
     (case duplicate_keyword [''model'', ''messages''] kw of
        Some k \<Rightarrow> (self, [], error_text (multiple_values AsyncClient_chat k))
      | None \<Rightarrow>
          (self,
           [\<lparr>req_model = model self, req_messages = prepare_conversation self message,
             req_stream = False, req_kwargs = kw\<rparr>],
           case ollama_async_chat srv
                  \<lparr>req_model = model self, req_messages = prepare_conversation self message,
                   req_stream = False, req_kwargs = kw\<rparr> of
             Inl e \<Rightarrow> error_text e
           | Inr response \<Rightarrow>
               (case content_of response of Inl e \<Rightarrow> error_text e | Inr text \<Rightarrow> text)))"
  by (simp add: async_chat_def async_chat_body_def Let_def split: option.splits sum.splits)

lemma stream_chat_cases:
  "stream_chat srv self message kw =
     (case duplicate_keyword [''model'', ''messages'', ''stream''] kw of
        Some k \<Rightarrow> (self, [], [error_text (multiple_values Client_chat k)])
      | None \<Rightarrow>
          (self,
           [\<lparr>req_model = model self, req_messages = prepare_conversation self message,
             req_stream = True, req_kwargs = kw\<rparr>],
           case ollama_chat_stream srv
                  \<lparr>req_model = model self, req_messages = prepare_conversation self message,
                   req_stream = True, req_kwargs = kw\<rparr> of
             Inl e \<Rightarrow> [error_text e]
           | Inr (chunks, fin) \<Rightarrow>
               (case stream_loop chunks fin of
                  (yielded, None) \<Rightarrow> yielded
                | (yielded, Some e) \<Rightarrow> yielded @ [error_text e])))"
  by (simp add: stream_chat_def stream_chat_body_def Let_def
           split: option.splits sum.splits prod.splits)

lemma prepare_conversation_eq:
  "prepare_conversation self message =
     (if system_prompt self = None \<or> system_prompt self = Some []
      then [user_message message]
      else [system_message (the (system_prompt self)), user_message message])"
  by (auto simp: prepare_conversation_def truthy_def split: option.splits)

lemma stream_loop_fragments:
  "map content_of chunks = map Inr fragments \<Longrightarrow> stream_loop chunks fin = (fragments, fin)"
proof (induction chunks arbitrary: fragments)
  case Nil
  then show ?case by simp
next
  case (Cons chunk chunks)
  then obtain f fs where fs: "fragments = f # fs" "content_of chunk = Inr f"
      "map content_of chunks = map Inr fs"
    by (cases fragments) auto
  with Cons.IH [of fs] show ?case by simp
qed

lemma model_names_all:
  "map (\<lambda>m. subscript m ''name'') entries = map Inr names \<Longrightarrow> model_names entries = Inr names"
proof (induction entries arbitrary: names)
  case Nil
  then show ?case by simp
next
  case (Cons m ms)
  then obtain n ns where ns: "names = n # ns" "subscript m ''name'' = Inr n"
      "map (\<lambda>m. subscript m ''name'') ms = map Inr ns"
    by (cases names) auto
  with Cons.IH [of ns] show ?case by simp
qed

lemma model_names_fails:
  "m \<in> set entries \<Longrightarrow> subscript m ''name'' = Inl e \<Longrightarrow> \<exists>e'. model_names entries = Inl e'"
proof (induction entries)
  case Nil
  then show ?case by simp
next
  case (Cons a entries)
  show ?case
  proof (cases "subscript a ''name''")
    case (Inl e')
    then show ?thesis by simp
  next
    case (Inr n)
    with Cons obtain e' where "model_names entries = Inl e'" by auto
    with Inr show ?thesis by simp
  qed
qed

subsection \<open>The conversation sent\<close>

text \<open>
  C1, as stated, fails: an agent whose system prompt is the empty string has a
  non-null system prompt, yet \<open>chat\<close> sends the user message alone.
\<close>

theorem empty_system_prompt_not_sent:
  "system_prompt (plain_agent (Some [])) \<noteq> None
   \<and> map req_messages (requests_of (chat answering_server (plain_agent (Some [])) ''hi'' []))
       = [[user_message ''hi'']]
   \<and> map req_messages (requests_of (chat answering_server (plain_agent (Some [])) ''hi'' []))
       \<noteq> [[system_message [], user_message ''hi'']]"
  by (simp add: chat_cases duplicate_keyword_def requests_of_def prepare_conversation_eq
        plain_agent_def OllamaStrandAgent_init_def Let_def)

text \<open>
  C1, amended. For every call to \<open>chat\<close>, \<open>async_chat\<close> or \<open>stream_chat\<close> with user
  message \<open>m\<close>, every request passed to the client library carries exactly the sequence
  [system message, user message] when the agent's system prompt is neither null nor
  empty, and exactly [user message] when it is null or empty. Each call passes at most
  one request, and exactly one unless the caller's extra keyword arguments repeat a
  keyword that the method passes itself.
\<close>

theorem conversation_sent:
  "(r \<in> set (requests_of (chat srv self message kw))
          \<union> set (requests_of (async_chat srv self message kw))
          \<union> set (requests_of (stream_chat srv self message kw)) \<longrightarrow>
      req_messages r =
        (if system_prompt self = None \<or> system_prompt self = Some []
         then [user_message message]
         else [system_message (the (system_prompt self)), user_message message]))
   \<and> length (requests_of (chat srv self message kw)) \<le> 1
   \<and> length (requests_of (async_chat srv self message kw)) \<le> 1
   \<and> length (requests_of (stream_chat srv self message kw)) \<le> 1
   \<and> (duplicate_keyword [''model'', ''messages''] kw = None \<longrightarrow>
        length (requests_of (chat srv self message kw)) = 1
        \<and> length (requests_of (async_chat srv self message kw)) = 1)
   \<and> (duplicate_keyword [''model'', ''messages'', ''stream''] kw = None \<longrightarrow>
        length (requests_of (stream_chat srv self message kw)) = 1)"
  by (auto simp: chat_cases async_chat_cases stream_chat_cases requests_of_def
        prepare_conversation_eq split: option.splits)

theorem conversation_sent_witness:
  "req_messages (hd (requests_of (chat answering_server (plain_agent (Some ''Be brief'')) ''hi'' [])))
     = [system_message ''Be brief'', user_message ''hi'']
   \<and> length (requests_of (chat answering_server (plain_agent (Some ''Be brief'')) ''hi'' [])) = 1"
proof -
  let ?a = "plain_agent (Some ''Be brief'')"
  have d: "duplicate_keyword [''model'', ''messages''] [] = None"
    by (simp add: duplicate_keyword_def)
  have p: "system_prompt ?a = Some ''Be brief''"
    by (simp add: plain_agent_def OllamaStrandAgent_init_def Let_def)
  have "requests_of (chat answering_server ?a ''hi'' []) \<noteq> []"
    by (simp add: chat_cases d requests_of_def)
  then have m: "hd (requests_of (chat answering_server ?a ''hi'' []))
      \<in> set (requests_of (chat answering_server ?a ''hi'' []))"
    by simp
  from conversation_sent
         [where r = "hd (requests_of (chat answering_server ?a ''hi'' []))"
            and srv = answering_server and self = ?a and message = "''hi''" and kw = "[]"]
       m p d
  show ?thesis by simp
qed

subsection \<open>Failures become text\<close>

text \<open>
  C3. \<open>chat\<close> and \<open>async_chat\<close> are total: whatever the server does, they return a text.
  Each passes to the library the request it builds from the agent's model, the
  conversation and the caller's keyword arguments. When that call raises an exception
  \<open>e\<close>, or the response lacks the content (\<open>KeyError\<close>, \<open>TypeError\<close>), the text returned
  is \<open>Error: \<close> followed by \<open>str(e)\<close>; so it is when the call itself cannot be made
  because a keyword is passed twice; and when the response carries a content, the text
  returned is that content.
\<close>

theorem chat_reports_failures:
  "(let r = \<lparr>req_model = model self, req_messages = prepare_conversation self message,
              req_stream = False, req_kwargs = kw\<rparr>
    in (duplicate_keyword [''model'', ''messages''] kw = Some k \<longrightarrow>
          returned (chat srv self message kw)
            = ''Error: '' @ str_exc (multiple_values Client_chat k)
          \<and> returned (async_chat srv self message kw)
            = ''Error: '' @ str_exc (multiple_values AsyncClient_chat k))
     \<and> (duplicate_keyword [''model'', ''messages''] kw = None \<and> ollama_chat srv r = Inl e \<longrightarrow>
          returned (chat srv self message kw) = ''Error: '' @ str_exc e)
     \<and> (duplicate_keyword [''model'', ''messages''] kw = None \<and> ollama_chat srv r = Inr response
          \<and> content_of response = Inl e \<longrightarrow>
          returned (chat srv self message kw) = ''Error: '' @ str_exc e)
     \<and> (duplicate_keyword [''model'', ''messages''] kw = None \<and> ollama_chat srv r = Inr response
          \<and> content_of response = Inr answer \<longrightarrow>
          returned (chat srv self message kw) = answer)
     \<and> (duplicate_keyword [''model'', ''messages''] kw = None \<and> ollama_async_chat srv r = Inl e \<longrightarrow>
          returned (async_chat srv self message kw) = ''Error: '' @ str_exc e)
     \<and> (duplicate_keyword [''model'', ''messages''] kw = None
          \<and> ollama_async_chat srv r = Inr response \<and> content_of response = Inl e \<longrightarrow>
          returned (async_chat srv self message kw) = ''Error: '' @ str_exc e)
     \<and> (duplicate_keyword [''model'', ''messages''] kw = None
          \<and> ollama_async_chat srv r = Inr response \<and> content_of response = Inr answer \<longrightarrow>
          returned (async_chat srv self message kw) = answer))"
  by (simp add: chat_cases async_chat_cases returned_def error_text_def Let_def)

theorem chat_reports_failures_witness:
  "returned (chat failing_server (plain_agent None) ''hi'' [])
     = ''Error: [Errno 111] Connection refused''
   \<and> returned (chat answering_server (plain_agent None) ''hi'' []) = ''The answer is 4''
   \<and> returned (async_chat failing_server (plain_agent None) ''hi'' [])
     = ''Error: [Errno 111] Connection refused''
   \<and> returned (async_chat answering_server (plain_agent None) ''hi'' []) = ''The answer is 4''
   \<and> returned (chat answering_server (plain_agent None) ''hi'' [(''model'', PyStr ''phi3'')])
     = ''Error: ollama._client.Client.chat() got multiple values for keyword argument ''
         @ repr_str ''model''"
proof -
  let ?a = "plain_agent None"
  let ?r = "\<lparr>req_model = model ?a, req_messages = prepare_conversation ?a ''hi'',
             req_stream = False, req_kwargs = []\<rparr>"
  have d: "duplicate_keyword [''model'', ''messages''] [] = None"
    by (simp add: duplicate_keyword_def)
  have k: "duplicate_keyword [''model'', ''messages''] [(''model'', PyStr ''phi3'')] = Some ''model''"
    by (simp add: duplicate_keyword_def)
  have f1: "ollama_chat failing_server ?r = Inl connection_error"
      "ollama_async_chat failing_server ?r = Inl connection_error"
    by (simp_all add: failing_server_def)
  have f2: "ollama_chat answering_server ?r = Inr (reply ''The answer is 4'')"
      "ollama_async_chat answering_server ?r = Inr (reply ''The answer is 4'')"
    by (simp_all add: answering_server_def)
  have c2: "content_of (reply ''The answer is 4'') = Inr ''The answer is 4''"
    by (simp add: content_of_def reply_def)
  have e: "''Error: '' @ str_exc connection_error = ''Error: [Errno 111] Connection refused''"
    by (simp add: connection_error_def)
  have t: "''Error: '' @ str_exc (multiple_values Client_chat ''model'')
      = ''Error: ollama._client.Client.chat() got multiple values for keyword argument ''
          @ repr_str ''model''"
    by (simp add: multiple_values_def Client_chat_def)
  from chat_reports_failures
         [where srv = failing_server and self = ?a and message = "''hi''" and kw = "[]"
            and e = connection_error]
       d f1 e
  have "returned (chat failing_server ?a ''hi'' []) = ''Error: [Errno 111] Connection refused''
      \<and> returned (async_chat failing_server ?a ''hi'' [])
          = ''Error: [Errno 111] Connection refused''"
    by (simp add: Let_def)
  moreover
  from chat_reports_failures
         [where srv = answering_server and self = ?a and message = "''hi''" and kw = "[]"
            and response = "reply ''The answer is 4''" and answer = "''The answer is 4''"]
       d f2 c2
  have "returned (chat answering_server ?a ''hi'' []) = ''The answer is 4''
      \<and> returned (async_chat answering_server ?a ''hi'' []) = ''The answer is 4''"
    by (simp add: Let_def)
  moreover
  from chat_reports_failures
         [where srv = answering_server and self = ?a and message = "''hi''"
            and kw = "[(''model'', PyStr ''phi3'')]" and k = "''model''"]
       k t
  have "returned (chat answering_server ?a ''hi'' [(''model'', PyStr ''phi3'')])
      = ''Error: ollama._client.Client.chat() got multiple values for keyword argument ''
          @ repr_str ''model''"
    by (simp add: Let_def)
  ultimately show ?thesis by simp
qed

subsection \<open>Listing the models\<close>

text \<open>
  C4, as stated, fails: a server reports two models, each entry naming its model under
  the key \<open>model\<close> and none under the key \<open>name\<close>, and \<open>list_available_models\<close> returns
  the empty list, not two identifiers.
\<close>

theorem listing_without_names_is_empty:
  "ollama_list renaming_server
     = Inr (Mapping [(''models'',
              [Mapping [(''model'', ''llama3.2'')], Mapping [(''model'', ''codellama'')]])])
   \<and> snd (list_available_models renaming_server (plain_agent None)) = []"
  by (simp add: renaming_server_def answering_server_def list_available_models_def
        list_available_models_body_def)

text \<open>
  C4, amended. \<open>list_available_models\<close> is total: it never raises. When the server
  reports the entries of \<open>N\<close> models and each entry carries the key \<open>name\<close>, the result
  is the list of the \<open>N\<close> names in the order of the report. When the query raises, or
  the report has no key \<open>models\<close>, or some entry has no key \<open>name\<close>, the result is the
  empty list.
\<close>

theorem list_available_models_result:
  "(ollama_list srv = Inr (Mapping d) \<and> map_of d ''models'' = Some entries
      \<and> map (\<lambda>m. subscript m ''name'') entries = map Inr names \<longrightarrow>
      snd (list_available_models srv self) = names
      \<and> length (snd (list_available_models srv self)) = length entries)
   \<and> (ollama_list srv = Inl e \<longrightarrow> snd (list_available_models srv self) = [])
   \<and> (ollama_list srv = Inr listing \<and> subscript listing ''models'' = Inl e \<longrightarrow>
        snd (list_available_models srv self) = [])
   \<and> (ollama_list srv = Inr listing \<and> subscript listing ''models'' = Inr entries
        \<and> m \<in> set entries \<and> subscript m ''name'' = Inl e \<longrightarrow>
        snd (list_available_models srv self) = [])"
proof -
  have "snd (list_available_models srv self) = names
      \<and> length (snd (list_available_models srv self)) = length entries"
    if "ollama_list srv = Inr (Mapping d)" and "map_of d ''models'' = Some entries"
      and n: "map (\<lambda>m. subscript m ''name'') entries = map Inr names"
  proof -
    have "length entries = length names"
      using n by (metis length_map)
    then show ?thesis
      using that model_names_all [OF n]
      by (simp add: list_available_models_def list_available_models_body_def)
  qed
  moreover have "snd (list_available_models srv self) = []" if "ollama_list srv = Inl e"
    using that by (simp add: list_available_models_def list_available_models_body_def)
  moreover have "snd (list_available_models srv self) = []"
    if "ollama_list srv = Inr listing" and "subscript listing ''models'' = Inl e"
    using that by (simp add: list_available_models_def list_available_models_body_def)
  moreover have "snd (list_available_models srv self) = []"
    if l: "ollama_list srv = Inr listing" "subscript listing ''models'' = Inr entries"
      and b: "m \<in> set entries" "subscript m ''name'' = Inl e"
  proof -
    obtain e' where "model_names entries = Inl e'"
      using model_names_fails [OF b] by blast
    then show ?thesis
      using l by (simp add: list_available_models_def list_available_models_body_def)
  qed
  ultimately show ?thesis by blast
qed

theorem list_available_models_result_witness:
  "snd (list_available_models answering_server (plain_agent None)) = [''llama3.2'', ''codellama'']
   \<and> snd (list_available_models failing_server (plain_agent None)) = []
   \<and> subscript (Mapping [(''model'', ''codellama'')]) ''name'' = Inl (KeyError ''name'')
   \<and> snd (list_available_models
            (answering_server
               \<lparr>ollama_list :=
                  Inr (Mapping [(''models'',
                         [Mapping [(''name'', ''llama3.2'')],
                          Mapping [(''model'', ''codellama'')]])])\<rparr>)
            (plain_agent None)) = []"
proof -
  let ?entries = "[Mapping [(''name'', ''llama3.2'')], Mapping [(''name'', ''codellama'')]]"
  let ?mixed = "[Mapping [(''name'', ''llama3.2'')], Mapping [(''model'', ''codellama'')]]"
  let ?srv = "answering_server \<lparr>ollama_list := Inr (Mapping [(''models'', ?mixed)])\<rparr>"
  have l: "ollama_list answering_server = Inr (Mapping [(''models'', ?entries)])"
    by (simp add: answering_server_def)
  have k: "map_of [(''models'', ?entries)] ''models'' = Some ?entries"
    by simp
  have n: "map (\<lambda>m. subscript m ''name'') ?entries = map Inr [''llama3.2'', ''codellama'']"
    by simp
  have f: "ollama_list failing_server = Inl connection_error"
    by (simp add: failing_server_def)
  have l': "ollama_list ?srv = Inr (Mapping [(''models'', ?mixed)])"
    by simp
  have k': "subscript (Mapping [(''models'', ?mixed)]) ''models'' = Inr ?mixed"
    by simp
  have m': "Mapping [(''model'', ''codellama'')] \<in> set ?mixed"
    by simp
  have b: "subscript (Mapping [(''model'', ''codellama'')]) ''name'' = Inl (KeyError ''name'')"
    by simp
  from list_available_models_result
         [where srv = answering_server and d = "[(''models'', ?entries)]" and entries = ?entries
            and names = "[''llama3.2'', ''codellama'']" and self = "plain_agent None"]
       l k n
  have "snd (list_available_models answering_server (plain_agent None))
      = [''llama3.2'', ''codellama'']"
    by blast
  moreover
  from list_available_models_result
         [where srv = failing_server and e = connection_error and self = "plain_agent None"]
       f
  have "snd (list_available_models failing_server (plain_agent None)) = []"
    by blast
  moreover
  from list_available_models_result
         [where srv = ?srv and listing = "Mapping [(''models'', ?mixed)]" and entries = ?mixed
            and m = "Mapping [(''model'', ''codellama'')]" and e = "KeyError ''name''"
            and self = "plain_agent None"]
       l' k' m' b
  have "snd (list_available_models ?srv (plain_agent None)) = []"
    by blast
  ultimately show ?thesis
    using b by simp
qed

subsection \<open>Streaming\<close>

lemma stream_chat_request:
  assumes "requests_of (stream_chat srv self message kw) = [r]"
  shows "duplicate_keyword [''model'', ''messages'', ''stream''] kw = None"
    and "r = \<lparr>req_model = model self, req_messages = prepare_conversation self message,
               req_stream = True, req_kwargs = kw\<rparr>"
  using assms by (auto simp: stream_chat_cases requests_of_def split: option.splits)

lemma stream_chat_yields:
  assumes "requests_of (stream_chat srv self message kw) = [r]"
    and "ollama_chat_stream srv r = Inr (chunks, fin)"
    and "map content_of chunks = map Inr fragments"
  shows "returned (stream_chat srv self message kw) =
           (case fin of None \<Rightarrow> fragments | Some e \<Rightarrow> fragments @ [error_text e])"
  using stream_chat_request [OF assms(1)] assms(2) stream_loop_fragments [OF assms(3), of fin]
  by (simp add: stream_chat_cases returned_def split: option.splits)

text \<open>
  C5. When the server answers the streaming request with a finite sequence of chunks
  that carry the fragments and then ends, \<open>stream_chat\<close> yields exactly those fragments
  in the order of arrival. If moreover the server answers the request of \<open>chat\<close> for the
  same input with the concatenation of the fragments, the concatenation of what
  \<open>stream_chat\<close> yields is the text \<open>chat\<close> returns.
\<close>

theorem stream_chat_fragments:
  "requests_of (stream_chat srv self message kw) = [r]
     \<and> ollama_chat_stream srv r = Inr (chunks, None)
     \<and> map content_of chunks = map Inr fragments \<longrightarrow>
   returned (stream_chat srv self message kw) = fragments
   \<and> (requests_of (chat srv self message kw) = [r'] \<and> ollama_chat srv r' = Inr response
        \<and> content_of response = Inr (concat fragments) \<longrightarrow>
      concat (returned (stream_chat srv self message kw)) = returned (chat srv self message kw))"
proof -
  have "returned (stream_chat srv self message kw) = fragments
      \<and> (requests_of (chat srv self message kw) = [r'] \<and> ollama_chat srv r' = Inr response
            \<and> content_of response = Inr (concat fragments) \<longrightarrow>
          concat (returned (stream_chat srv self message kw))
            = returned (chat srv self message kw))"
    if s: "requests_of (stream_chat srv self message kw) = [r]"
      and c: "ollama_chat_stream srv r = Inr (chunks, None)"
      and f: "map content_of chunks = map Inr fragments"
  proof -
    have y: "returned (stream_chat srv self message kw) = fragments"
      using stream_chat_yields [OF s c f] by simp
    have "returned (chat srv self message kw) = concat fragments"
      if "requests_of (chat srv self message kw) = [r']"
        and "ollama_chat srv r' = Inr response"
        and "content_of response = Inr (concat fragments)"
      using that
      by (auto simp: chat_cases requests_of_def returned_def split: option.splits)
    with y show ?thesis by simp
  qed
  then show ?thesis by blast
qed

theorem stream_chat_fragments_witness:
  "returned (stream_chat answering_server (plain_agent None) ''2+2?'' [])
     = [''The'', '' answer'', '' is 4'']
   \<and> concat (returned (stream_chat answering_server (plain_agent None) ''2+2?'' []))
     = returned (chat answering_server (plain_agent None) ''2+2?'' [])"
proof -
  let ?a = "plain_agent None"
  let ?fragments = "[''The'', '' answer'', '' is 4'']"
  let ?chunks = "[reply ''The'', reply '' answer'', reply '' is 4'']"
  let ?r = "\<lparr>req_model = model ?a, req_messages = prepare_conversation ?a ''2+2?'',
             req_stream = True, req_kwargs = []\<rparr>"
  let ?r' = "\<lparr>req_model = model ?a, req_messages = prepare_conversation ?a ''2+2?'',
              req_stream = False, req_kwargs = []\<rparr>"
  have s: "requests_of (stream_chat answering_server ?a ''2+2?'' []) = [?r]"
    by (simp add: stream_chat_cases duplicate_keyword_def requests_of_def)
  have c: "ollama_chat_stream answering_server ?r = Inr (?chunks, None)"
    by (simp add: answering_server_def)
  have f: "map content_of ?chunks = map Inr ?fragments"
    by (simp add: content_of_def reply_def)
  have s': "requests_of (chat answering_server ?a ''2+2?'' []) = [?r']"
    by (simp add: chat_cases duplicate_keyword_def requests_of_def)
  have c': "ollama_chat answering_server ?r' = Inr (reply ''The answer is 4'')"
    by (simp add: answering_server_def)
  have f': "content_of (reply ''The answer is 4'') = Inr (concat ?fragments)"
    by (simp add: content_of_def reply_def)
  from stream_chat_fragments
         [where srv = answering_server and self = ?a and message = "''2+2?''" and kw = "[]"
            and r = ?r and chunks = ?chunks and fragments = ?fragments
            and r' = ?r' and response = "reply ''The answer is 4''"]
       s c f s' c' f'
  show ?thesis by blast
qed

text \<open>
  C6. When the stream breaks with an exception \<open>e\<close> after the chunks that carry the
  fragments delivered so far, \<open>stream_chat\<close> yields those fragments, then the one
  fragment \<open>Error: \<close> followed by \<open>str(e)\<close>, and nothing after it. The sequence is a
  list: iterating it raises nothing.
\<close>

theorem stream_chat_failure:
  "requests_of (stream_chat srv self message kw) = [r]
     \<and> ollama_chat_stream srv r = Inr (chunks, Some e)
     \<and> map content_of chunks = map Inr fragments \<longrightarrow>
   returned (stream_chat srv self message kw) = fragments @ [''Error: '' @ str_exc e]"
proof -
  have "returned (stream_chat srv self message kw) = fragments @ [''Error: '' @ str_exc e]"
    if s: "requests_of (stream_chat srv self message kw) = [r]"
      and c: "ollama_chat_stream srv r = Inr (chunks, Some e)"
      and f: "map content_of chunks = map Inr fragments"
    using stream_chat_yields [OF s c f] by (simp add: error_text_def)
  then show ?thesis by blast
qed

theorem stream_chat_failure_witness:
  "returned (stream_chat failing_server (plain_agent None) ''2+2?'' [])
     = [''The'', '' answer'', ''Error: [Errno 111] Connection refused'']"
proof -
  let ?a = "plain_agent None"
  let ?fragments = "[''The'', '' answer'']"
  let ?chunks = "[reply ''The'', reply '' answer'']"
  let ?r = "\<lparr>req_model = model ?a, req_messages = prepare_conversation ?a ''2+2?'',
             req_stream = True, req_kwargs = []\<rparr>"
  have s: "requests_of (stream_chat failing_server ?a ''2+2?'' []) = [?r]"
    by (simp add: stream_chat_cases duplicate_keyword_def requests_of_def)
  have c: "ollama_chat_stream failing_server ?r = Inr (?chunks, Some connection_error)"
    by (simp add: failing_server_def)
  have f: "map content_of ?chunks = map Inr ?fragments"
    by (simp add: content_of_def reply_def)
  have e: "''Error: '' @ str_exc connection_error = ''Error: [Errno 111] Connection refused''"
    by (simp add: connection_error_def)
  from stream_chat_failure
         [where srv = failing_server and self = ?a and message = "''2+2?''" and kw = "[]"
            and r = ?r and chunks = ?chunks and fragments = ?fragments and e = connection_error]
       s c f e
  show ?thesis by simp
qed

subsection \<open>The factory\<close>

lemma lower_preset_names:
  "lower ''MATH'' = ''math''" "lower ''pirate'' = ''pirate''"
  by code_simp+

text \<open>
  C7. \<open>create_agent\<close> raises \<open>ValueError\<close> for every agent type whose lower-case form
  is none of \<open>math\<close>, \<open>research\<close>, \<open>code\<close>, \<open>analysis\<close>, \<open>creative\<close>; for each of these
  five it returns, without raising, the agent that the class of that name constructs,
  with the model given, or with the default of the class when the model is null or
  empty.
\<close>

theorem create_agent_presets:
  "(lower agent_type \<notin> {''math'', ''research'', ''code'', ''analysis'', ''creative''} \<longrightarrow>
      (\<exists>msg. create_agent cfg agent_type m = Inl (ValueError msg)))
   \<and> (lower agent_type = ''math'' \<longrightarrow>
        create_agent cfg agent_type m = Inr (MathAgent cfg (if truthy m then m else None)))
   \<and> (lower agent_type = ''research'' \<longrightarrow>
        create_agent cfg agent_type m = Inr (ResearchAgent cfg (if truthy m then m else None)))
   \<and> (lower agent_type = ''code'' \<longrightarrow>
        create_agent cfg agent_type m = Inr (CodeAgent cfg (if truthy m then m else None)))
   \<and> (lower agent_type = ''analysis'' \<longrightarrow>
        create_agent cfg agent_type m = Inr (AnalysisAgent cfg (if truthy m then m else None)))
   \<and> (lower agent_type = ''creative'' \<longrightarrow>
        create_agent cfg agent_type m = Inr (CreativeAgent cfg (if truthy m then m else None)))"
  by (simp add: create_agent_def agents_def has_key_def)

theorem create_agent_presets_witness:
  "lower ''pirate'' \<notin> {''math'', ''research'', ''code'', ''analysis'', ''creative''}
   \<and> isl (create_agent OllamaConfig_defaults ''pirate'' None)
   \<and> lower ''MATH'' = ''math''
   \<and> create_agent OllamaConfig_defaults ''MATH'' None = Inr (MathAgent OllamaConfig_defaults None)
   \<and> name (MathAgent OllamaConfig_defaults None) = ''MathAgent''
   \<and> model (MathAgent OllamaConfig_defaults None) = ''llama3.2''"
proof -
  have h: "lower ''pirate'' \<notin> {''math'', ''research'', ''code'', ''analysis'', ''creative''}"
    by (simp add: lower_preset_names)
  have t: "\<not> truthy None"
    by (simp add: truthy_def)
  have n: "name (MathAgent OllamaConfig_defaults None) = ''MathAgent''
      \<and> model (MathAgent OllamaConfig_defaults None) = ''llama3.2''"
    by (simp add: MathAgent_def OllamaStrandAgent_init_def truthy_def Let_def)
  from create_agent_presets
         [where agent_type = "''pirate''" and cfg = OllamaConfig_defaults and m = None] h
  have "isl (create_agent OllamaConfig_defaults ''pirate'' None)"
    by auto
  moreover
  from create_agent_presets
         [where agent_type = "''MATH''" and cfg = OllamaConfig_defaults and m = None]
       lower_preset_names(1) t
  have "create_agent OllamaConfig_defaults ''MATH'' None = Inr (MathAgent OllamaConfig_defaults None)"
    by simp
  ultimately show ?thesis
    using h n lower_preset_names(1) by simp
qed

subsection \<open>What a call changes\<close>

text \<open>
  C10. \<open>chat\<close>, \<open>async_chat\<close> and \<open>stream_chat\<close> leave the agent as it was, whatever the
  server does. Among the methods of the class only \<open>add_tool\<close> changes the agent: it
  appends the tool to \<open>tools\<close>, rebuilds \<open>strand_agent\<close> from the name and the new
  tools, and leaves \<open>name\<close>, \<open>model\<close>, \<open>system_prompt\<close> and \<open>config\<close> as they were.
\<close>

theorem only_add_tool_changes_agent:
  "self_after (chat srv self message kw) = self
   \<and> self_after (async_chat srv self message kw) = self
   \<and> self_after (stream_chat srv self message kw) = self
   \<and> (invoke srv self call \<noteq> self \<longrightarrow> (\<exists>t. call = AddTool t))
   \<and> tools (add_tool self t) = tools self @ [t]
   \<and> strand_agent (add_tool self t) = Agent (name self) (tools self @ [t]) []
   \<and> name (add_tool self t) = name self
   \<and> model (add_tool self t) = model self
   \<and> system_prompt (add_tool self t) = system_prompt self
   \<and> config (add_tool self t) = config self"
proof -
  have c: "fst (chat srv self message kw) = self" for message kw
    by (simp add: chat_cases split: option.splits)
  have a: "fst (async_chat srv self message kw) = self" for message kw
    by (simp add: async_chat_cases split: option.splits)
  have s: "fst (stream_chat srv self message kw) = self" for message kw
    by (simp add: stream_chat_cases split: option.splits)
  have g: "fst (get_model_info srv self) = self"
    by (simp add: get_model_info_def split: sum.splits)
  have l: "fst (list_available_models srv self) = self"
    by (simp add: list_available_models_def split: sum.splits)
  have "\<exists>t. call = AddTool t" if "invoke srv self call \<noteq> self"
    using that c a s g l by (cases call) simp_all
  then show ?thesis
    using c a s by (simp add: self_after_def add_tool_def Let_def)
qed

theorem only_add_tool_changes_agent_witness:
  "invoke answering_server (plain_agent None) (AddTool calculator) \<noteq> plain_agent None
   \<and> tools (add_tool (plain_agent None) calculator) = [calculator]
   \<and> self_after (chat failing_server (plain_agent None) ''hi'' []) = plain_agent None"
proof -
  have t: "tools (plain_agent None) = []"
    by (simp add: plain_agent_def OllamaStrandAgent_init_def Let_def)
  from only_add_tool_changes_agent
         [where srv = failing_server and self = "plain_agent None" and message = "''hi''"
            and kw = "[]" and t = calculator]
       t
  have u: "tools (add_tool (plain_agent None) calculator) = [calculator]
      \<and> self_after (chat failing_server (plain_agent None) ''hi'' []) = plain_agent None"
    by simp
  then have "add_tool (plain_agent None) calculator \<noteq> plain_agent None"
    using t by auto
  then show ?thesis
    using u by simp
qed

end
